theory Spec2Isabelle
  imports Complex_Main "HOL-Library.Sublist"
begin

section \<open>Python values as the two modules see them\<close>

text \<open>
  Everything the service handles is JSON: the webhook's record, the provider's reply
  envelope, the extracted data, the rows the store returns. A JSON object is an
  association list read with \<open>map_of\<close>, each key listed once. Strings are lists of 8-bit
  characters (code points below 256). A float is carried as a real number; NaN and the
  infinities, which \<^verbatim>\<open>json.loads\<close> also accepts, are not represented (they are truthy
  numbers and nothing below computes with a float).
\<close>

datatype json =
    JNull
  | JBool bool
  | JInt int
  | JFloat real
  | JStr string
  | JArr "json list"
  | JObj "(string \<times> json) list"

text \<open>
  Exceptions, by class, each with the text \<^verbatim>\<open>str(e)\<close> is built from. All of them are
  subclasses of \<^verbatim>\<open>Exception\<close>; \<open>JSONDecodeError\<close> is also a \<^verbatim>\<open>ValueError\<close>.
  \<open>HTTPStatusError\<close> carries its message and the text of the response it was raised for;
  \<open>HTTPException\<close> its status code and detail; \<open>OtherException\<close> is any other class a
  collaborator may raise.
\<close>

datatype exn =
    KeyError string
  | IndexError string
  | TypeError string
  | AttributeError string
  | ValueError string
  | JSONDecodeError string
  | OverflowError string
  | HTTPStatusError string string
  | HTTPException nat string
  | OtherException string

type_synonym bytes = "char list"

definition bind_exn :: "exn + 'a \<Rightarrow> ('a \<Rightarrow> exn + 'b) \<Rightarrow> exn + 'b" where
  "bind_exn r f = (case r of Inl e \<Rightarrow> Inl e | Inr v \<Rightarrow> f v)"

subsection \<open>Decimal rendering\<close>

definition digit_char :: "nat \<Rightarrow> char" where
  "digit_char n = char_of (48 + n mod 10)"

text \<open>\<^verbatim>\<open>str(n)\<close> for a natural number.\<close>

function show_nat :: "nat \<Rightarrow> string" where
  "show_nat n = (if n < 10 then [digit_char n] else show_nat (n div 10) @ [digit_char n])"
  by pat_completeness auto
termination
  by (relation "measure id") auto

declare show_nat.simps [simp del]

definition show_int :: "int \<Rightarrow> string" where
  "show_int i = (if i < 0 then CHR ''-'' # show_nat (nat (- i)) else show_nat (nat i))"

text \<open>\<^verbatim>\<open>"%02d" % n\<close> and \<^verbatim>\<open>"%04d" % n\<close>: zero-padded to a minimum width.\<close>

definition zero_pad :: "nat \<Rightarrow> nat \<Rightarrow> string" where
  "zero_pad w n = replicate (w - length (show_nat n)) (CHR ''0'') @ show_nat n"

subsection \<open>Operations on values\<close>

definition quote :: char where
  "quote = CHR 0x27"

text \<open>\<^verbatim>\<open>repr\<close> of a key that has no quote, backslash or control character in it.\<close>

definition py_repr_key :: "string \<Rightarrow> string" where
  "py_repr_key k = quote # k @ [quote]"

fun py_type_name :: "json \<Rightarrow> string" where
  "py_type_name JNull = ''NoneType''"
| "py_type_name (JBool _) = ''bool''"
| "py_type_name (JInt _) = ''int''"
| "py_type_name (JFloat _) = ''float''"
| "py_type_name (JStr _) = ''str''"
| "py_type_name (JArr _) = ''list''"
| "py_type_name (JObj _) = ''dict''"

text \<open>Truth value of \<^verbatim>\<open>if v:\<close>.\<close>

fun truthy :: "json \<Rightarrow> bool" where
  "truthy JNull = False"
| "truthy (JBool b) = b"
| "truthy (JInt i) = (i \<noteq> 0)"
| "truthy (JFloat x) = (x \<noteq> 0)"
| "truthy (JStr s) = (s \<noteq> [])"
| "truthy (JArr xs) = (xs \<noteq> [])"
| "truthy (JObj kvs) = (kvs \<noteq> [])"

definition not_subscriptable :: "json \<Rightarrow> exn" where
  "not_subscriptable v =
     TypeError (quote # py_type_name v @ quote # '' object is not subscriptable'')"

text \<open>\<^verbatim>\<open>v[key]\<close> for a string key (messages as CPython 3.12 words them).\<close>

fun getitem_key :: "json \<Rightarrow> string \<Rightarrow> exn + json" where
  "getitem_key (JObj kvs) k =
     (case map_of kvs k of None \<Rightarrow> Inl (KeyError (py_repr_key k)) | Some v \<Rightarrow> Inr v)"
| "getitem_key (JArr xs) k =
     Inl (TypeError ''list indices must be integers or slices, not str'')"
| "getitem_key (JStr s) k =
     Inl (TypeError (''string indices must be integers, not '' @ py_repr_key ''str''))"
| "getitem_key v k = Inl (not_subscriptable v)"

text \<open>\<^verbatim>\<open>v[0]\<close>. The keys of a JSON object are strings, so \<open>0\<close> is never one of them.\<close>

fun getitem_0 :: "json \<Rightarrow> exn + json" where
  "getitem_0 (JArr []) = Inl (IndexError ''list index out of range'')"
| "getitem_0 (JArr (x # xs)) = Inr x"
| "getitem_0 (JStr []) = Inl (IndexError ''string index out of range'')"
| "getitem_0 (JStr (c # cs)) = Inr (JStr [c])"
| "getitem_0 (JObj kvs) = Inl (KeyError ''0'')"
| "getitem_0 v = Inl (not_subscriptable v)"

definition no_attribute :: "json \<Rightarrow> string \<Rightarrow> exn" where
  "no_attribute v a =
     AttributeError (quote # py_type_name v @ quote # '' object has no attribute '' @ py_repr_key a)"

text \<open>\<^verbatim>\<open>v.get(key)\<close>: only a dict has the method; a missing key gives \<^verbatim>\<open>None\<close>.\<close>

fun dict_get :: "json \<Rightarrow> string \<Rightarrow> exn + json" where
  "dict_get (JObj kvs) k = Inr (case map_of kvs k of None \<Rightarrow> JNull | Some v \<Rightarrow> v)"
| "dict_get v k = Inl (no_attribute v ''get'')"

subsection \<open>String methods\<close>

function py_replace_from :: "string \<Rightarrow> string \<Rightarrow> string \<Rightarrow> string" where
  "py_replace_from old new [] = []"
| "py_replace_from old new (c # cs) =
     (if old \<noteq> [] \<and> prefix old (c # cs)
      then new @ py_replace_from old new (drop (length old) (c # cs))
      else c # py_replace_from old new cs)"
  by pat_completeness auto
termination
  by (relation "measure (\<lambda>(old, new, s). length s)") auto

text \<open>
  \<^verbatim>\<open>s.replace(old, new)\<close>: every occurrence, left to right, without overlap. An empty
  \<open>old\<close> matches before every character and at the end.
\<close>

definition py_replace :: "string \<Rightarrow> string \<Rightarrow> string \<Rightarrow> string" where
  "py_replace s old new =
     (if old = [] then new @ concat (map (\<lambda>c. c # new) s) else py_replace_from old new s)"

definition py_isspace :: "char \<Rightarrow> bool" where
  "py_isspace c = ((of_char c :: nat) \<in> {9, 10, 11, 12, 13, 28, 29, 30, 31, 32, 133, 160})"

definition py_strip :: "string \<Rightarrow> string" where
  "py_strip s = rev (dropWhile py_isspace (rev (dropWhile py_isspace s)))"

definition lower_char :: "char \<Rightarrow> char" where
  "lower_char c =
     (let n = (of_char c :: nat)
      in if (65 \<le> n \<and> n \<le> 90) \<or> (192 \<le> n \<and> n \<le> 222 \<and> n \<noteq> 215)
         then char_of (n + 32) else c)"

definition py_lower :: "string \<Rightarrow> string" where
  "py_lower s = map lower_char s"

definition py_endswith :: "string \<Rightarrow> string \<Rightarrow> bool" where
  "py_endswith s suf = prefix (rev suf) (rev s)"

section \<open>Calendar dates\<close>

text \<open>
  \<^verbatim>\<open>datetime.date\<close>: year, month and day of the proleptic Gregorian calendar, years 1 to
  9999, compared field by field. The ordinal arithmetic is that of the \<^verbatim>\<open>datetime\<close>
  module.
\<close>

record date =
  year :: nat
  month :: nat
  day :: nat

definition date_less :: "date \<Rightarrow> date \<Rightarrow> bool" where
  "date_less a b =
     (year a < year b \<or> (year a = year b \<and>
       (month a < month b \<or> (month a = month b \<and> day a < day b))))"

definition date_le :: "date \<Rightarrow> date \<Rightarrow> bool" where
  "date_le a b = (\<not> date_less b a)"

definition is_leap :: "nat \<Rightarrow> bool" where
  "is_leap y = (y mod 4 = 0 \<and> (y mod 100 \<noteq> 0 \<or> y mod 400 = 0))"

definition DAYS_IN_MONTH :: "nat list" where
  "DAYS_IN_MONTH = [0, 31, 28, 31, 30, 31, 30, 31, 31, 30, 31, 30, 31]"

definition DAYS_BEFORE_MONTH :: "nat list" where
  "DAYS_BEFORE_MONTH = [0, 0, 31, 59, 90, 120, 151, 181, 212, 243, 273, 304, 334]"

definition days_in_month :: "nat \<Rightarrow> nat \<Rightarrow> nat" where
  "days_in_month y m = (if m = 2 \<and> is_leap y then 29 else DAYS_IN_MONTH ! m)"

definition days_before_year :: "nat \<Rightarrow> nat" where
  "days_before_year y = (y - 1) * 365 + (y - 1) div 4 - (y - 1) div 100 + (y - 1) div 400"

definition days_before_month :: "nat \<Rightarrow> nat \<Rightarrow> nat" where
  "days_before_month y m = DAYS_BEFORE_MONTH ! m + (if m > 2 \<and> is_leap y then 1 else 0)"

definition valid_date :: "nat \<Rightarrow> nat \<Rightarrow> nat \<Rightarrow> bool" where
  "valid_date y m d =
     (1 \<le> y \<and> y \<le> 9999 \<and> 1 \<le> m \<and> m \<le> 12 \<and> 1 \<le> d \<and> d \<le> days_in_month y m)"

definition ymd2ord :: "date \<Rightarrow> nat" where
  "ymd2ord dt = days_before_year (year dt) + days_before_month (year dt) (month dt) + day dt"

definition MAXORDINAL :: nat where
  "MAXORDINAL = 3652059"

definition ord2ymd :: "nat \<Rightarrow> date" where
  "ord2ymd ordinal =
     (let n0 = ordinal - 1;
          n400 = n0 div 146097; na = n0 mod 146097;
          n100 = na div 36524; nb = na mod 36524;
          n4 = nb div 1461; nc = nb mod 1461;
          n1 = nc div 365; n = nc mod 365;
          y = n400 * 400 + 1 + n100 * 100 + n4 * 4 + n1
      in if n1 = 4 \<or> n100 = 4 then \<lparr>year = y - 1, month = 12, day = 31\<rparr>
         else
           let leapyear = (n1 = 3 \<and> (n4 \<noteq> 24 \<or> n100 = 3));
               m0 = (n + 50) div 32;
               preceding0 = DAYS_BEFORE_MONTH ! m0 + (if m0 > 2 \<and> leapyear then 1 else 0);
               m = (if preceding0 > n then m0 - 1 else m0);
               preceding =
                 (if preceding0 > n
                  then preceding0 - (DAYS_IN_MONTH ! m + (if m = 2 \<and> leapyear then 1 else 0))
                  else preceding0)
           in \<lparr>year = y, month = m, day = n - preceding + 1\<rparr>)"

text \<open>
  \<^verbatim>\<open>d + timedelta(days=n)\<close>. A \<^verbatim>\<open>timedelta\<close> of more than 999999999 days cannot be built,
  and a sum outside the years 1 to 9999 is refused: both raise \<^verbatim>\<open>OverflowError\<close>.
\<close>

definition date_add_days :: "date \<Rightarrow> int \<Rightarrow> exn + date" where
  "date_add_days dt n =
     (if \<bar>n\<bar> > 999999999
      then Inl (OverflowError (''days='' @ show_int n @ ''; must have magnitude <= 999999999''))
      else let ordinal = int (ymd2ord dt) + n
           in if 0 < ordinal \<and> ordinal \<le> int MAXORDINAL then Inr (ord2ymd (nat ordinal))
              else Inl (OverflowError ''date value out of range''))"

text \<open>\<^verbatim>\<open>d.isoformat()\<close>, that is \<^verbatim>\<open>"%04d-%02d-%02d" % (year, month, day)\<close>.\<close>

definition isoformat :: "date \<Rightarrow> string" where
  "isoformat dt =
     zero_pad 4 (year dt) @ ''-'' @ zero_pad 2 (month dt) @ ''-'' @ zero_pad 2 (day dt)"

subsection \<open>Reading a date\<close>

definition is_digit :: "char \<Rightarrow> bool" where
  "is_digit c = (48 \<le> (of_char c :: nat) \<and> (of_char c :: nat) \<le> 57)"

definition digit_val :: "char \<Rightarrow> nat" where
  "digit_val c = of_char c - 48"

text \<open>
  \<^verbatim>\<open>datetime.strptime(s, "%Y-%m-%d").date()\<close>, \<open>None\<close> where it raises \<^verbatim>\<open>ValueError\<close>. The
  format is matched from the start of \<open>s\<close> as the regular expression
  \<^verbatim>\<open>(\d\d\d\d)-(1[0-2]|0[1-9]|[1-9])-(3[0-1]|[1-2]\d|0[1-9]|[1-9]| [1-9])\<close>, alternatives
  tried in this order; text left over after the match, a year 0 and a day the month does
  not have are refused.
\<close>

fun strptime_month :: "string \<Rightarrow> (nat \<times> string) option" where
  "strptime_month [] = None"
| "strptime_month [a] = (if is_digit a \<and> a \<noteq> CHR ''0'' then Some (digit_val a, []) else None)"
| "strptime_month (a # b # r) =
     (if a = CHR ''1'' \<and> b \<in> {CHR ''0'', CHR ''1'', CHR ''2''} then Some (10 + digit_val b, r)
      else if a = CHR ''0'' \<and> is_digit b \<and> b \<noteq> CHR ''0'' then Some (digit_val b, r)
      else if is_digit a \<and> a \<noteq> CHR ''0'' then Some (digit_val a, b # r)
      else None)"

fun strptime_day :: "string \<Rightarrow> (nat \<times> string) option" where
  "strptime_day [] = None"
| "strptime_day [a] = (if is_digit a \<and> a \<noteq> CHR ''0'' then Some (digit_val a, []) else None)"
| "strptime_day (a # b # r) =
     (if a = CHR ''3'' \<and> b \<in> {CHR ''0'', CHR ''1''} then Some (30 + digit_val b, r)
      else if a \<in> {CHR ''1'', CHR ''2''} \<and> is_digit b then Some (10 * digit_val a + digit_val b, r)
      else if a = CHR ''0'' \<and> is_digit b \<and> b \<noteq> CHR ''0'' then Some (digit_val b, r)
      else if is_digit a \<and> a \<noteq> CHR ''0'' then Some (digit_val a, b # r)
      else if a = CHR '' '' \<and> is_digit b \<and> b \<noteq> CHR ''0'' then Some (digit_val b, r)
      else None)"

fun strptime_ymd :: "string \<Rightarrow> date option" where
  "strptime_ymd (y1 # y2 # y3 # y4 # h # r) =
     (if is_digit y1 \<and> is_digit y2 \<and> is_digit y3 \<and> is_digit y4 \<and> h = CHR ''-''
      then (case strptime_month r of
              None \<Rightarrow> None
            | Some (m, r1) \<Rightarrow>
                (case r1 of
                   [] \<Rightarrow> None
                 | h1 # r2 \<Rightarrow>
                     if h1 \<noteq> CHR ''-'' then None
                     else (case strptime_day r2 of
                             None \<Rightarrow> None
                           | Some (d, r3) \<Rightarrow>
                               let y = 1000 * digit_val y1 + 100 * digit_val y2
                                       + 10 * digit_val y3 + digit_val y4
                               in if r3 = [] \<and> valid_date y m d
                                  then Some \<lparr>year = y, month = m, day = d\<rparr>
                                  else None)))
      else None)"
| "strptime_ymd s = None"

section \<open>Collaborators\<close>

text \<open>
  Object storage, the extraction provider, the relational store and the clock are outside
  the program. Each is a function of the calls made so far (oldest first) and of the
  call's arguments, so that a collaborator may answer the same call differently at
  different times; \<open>Inl\<close> is the exception the call raises. \<^verbatim>\<open>json.loads\<close> is the standard
  library's and is taken as given.
\<close>

record response =
  status_code :: nat
  status_message :: string
  response_text :: string
  response_json :: "exn + json"

text \<open>
  One extraction request: the model named in the URL, and the content type and the
  document of the \<^verbatim>\<open>inline_data\<close> part. The prompt, the headers and the 60 second timeout
  are the same in every request; the document is carried as its bytes, Base64 being an
  injective re-encoding of them.
\<close>

record request =
  model_name :: string
  mime_type :: string
  inline_data :: bytes

datatype filter = Eq string string | Lte string string | Gte string string

record query =
  from_table :: string
  select_columns :: string
  filters :: "filter list"

datatype call =
    Storage_download string
  | Http_post request
  | Table_update string "(string \<times> json) list" string json
  | Table_select query
  | Clock_now

record env =
  storage_download :: "call list \<Rightarrow> string \<Rightarrow> exn + bytes"
  client_post :: "call list \<Rightarrow> request \<Rightarrow> exn + response"
  update_execute :: "call list \<Rightarrow> string \<Rightarrow> (string \<times> json) list \<Rightarrow> string \<Rightarrow> json \<Rightarrow> exn option"
  store_rows :: "call list \<Rightarrow> string \<Rightarrow> string \<Rightarrow> exn + json list"
  json_loads :: "string \<Rightarrow> exn + json"
  clock_today :: "call list \<Rightarrow> date"

text \<open>\<^verbatim>\<open>str(e)\<close>. A \<^verbatim>\<open>KeyError\<close> holds the \<^verbatim>\<open>repr\<close> of its key already.\<close>

fun str_exn :: "exn \<Rightarrow> string" where
  "str_exn (KeyError k) = k"
| "str_exn (IndexError m) = m"
| "str_exn (TypeError m) = m"
| "str_exn (AttributeError m) = m"
| "str_exn (ValueError m) = m"
| "str_exn (JSONDecodeError m) = m"
| "str_exn (OverflowError m) = m"
| "str_exn (HTTPStatusError m t) = m"
| "str_exn (HTTPException c d) = show_nat c @ '': '' @ d"
| "str_exn (OtherException m) = m"

text \<open>\<^verbatim>\<open>response.raise_for_status()\<close> of httpx: any status outside 200 to 299 raises.\<close>

definition raise_for_status :: "response \<Rightarrow> exn option" where
  "raise_for_status r =
     (if 200 \<le> status_code r \<and> status_code r \<le> 299 then None
      else Some (HTTPStatusError (status_message r) (response_text r)))"

section \<open>main.py\<close>

subsection \<open>download_file_from_supabase\<close>

text \<open>
  Whatever fails inside, the path not being a string included, leaves as
  \<^verbatim>\<open>HTTPException(status_code=500, detail="Storage Download Failed")\<close>.
\<close>

definition download_file_from_supabase ::
    "env \<Rightarrow> call list \<Rightarrow> json \<Rightarrow> (exn + bytes) \<times> call list" where
  "download_file_from_supabase env tr file_path =
     (case file_path of
        JStr p \<Rightarrow>
          (let clean_path = py_replace p ''cois/'' ''''
           in (case storage_download env tr clean_path of
                 Inl e \<Rightarrow> Inl (HTTPException 500 ''Storage Download Failed'')
               | Inr data \<Rightarrow> Inr data,
               tr @ [Storage_download clean_path]))
      | _ \<Rightarrow> (Inl (HTTPException 500 ''Storage Download Failed''), tr))"

subsection \<open>extract_data_with_gemini_raw\<close>

definition infer_mime_type :: "string \<Rightarrow> string" where
  "infer_mime_type file_path =
     (let lower_path = py_lower file_path
      in if py_endswith lower_path ''.png'' then ''image/png''
         else if py_endswith lower_path ''.jpg'' \<or> py_endswith lower_path ''.jpeg''
         then ''image/jpeg''
         else ''application/pdf'')"

definition target_models :: "string list" where
  "target_models =
     [''gemini-2.5-flash-preview-09-2025'', ''gemini-2.5-flash'',
      ''gemini-1.5-flash-latest'', ''gemini-1.5-flash'']"

definition build_request :: "bytes \<Rightarrow> string \<Rightarrow> string \<Rightarrow> request" where
  "build_request file_bytes file_path name =
     \<lparr>model_name = name, mime_type = infer_mime_type file_path, inline_data = file_bytes\<rparr>"

text \<open>
  The inner \<^verbatim>\<open>except (KeyError, IndexError, json.JSONDecodeError)\<close>: these three are
  re-raised as a \<^verbatim>\<open>ValueError\<close>, any other exception passes through.
\<close>

fun invalid_structure :: "exn \<Rightarrow> exn" where
  "invalid_structure (KeyError k) = ValueError (''Invalid JSON structure: '' @ str_exn (KeyError k))"
| "invalid_structure (IndexError m) = ValueError (''Invalid JSON structure: '' @ str_exn (IndexError m))"
| "invalid_structure (JSONDecodeError m) =
     ValueError (''Invalid JSON structure: '' @ str_exn (JSONDecodeError m))"
| "invalid_structure e = e"

text \<open>\<^verbatim>\<open>result['candidates'][0]['content']['parts'][0]['text']\<close>\<close>

definition reply_text :: "json \<Rightarrow> exn + json" where
  "reply_text result =
     bind_exn (getitem_key result ''candidates'') (\<lambda>a.
     bind_exn (getitem_0 a) (\<lambda>b.
     bind_exn (getitem_key b ''content'') (\<lambda>c.
     bind_exn (getitem_key c ''parts'') (\<lambda>d.
     bind_exn (getitem_0 d) (\<lambda>e.
     getitem_key e ''text'')))))"

definition clean_reply :: "string \<Rightarrow> string" where
  "clean_reply t = py_strip (py_replace (py_replace t ''```json'' '''') ''```'' '''')"

text \<open>The inner \<^verbatim>\<open>try\<close> of the loop: from the provider's envelope to the parsed reply.\<close>

definition parse_envelope :: "env \<Rightarrow> json \<Rightarrow> exn + json" where
  "parse_envelope env result =
     (case reply_text result of
        Inl e \<Rightarrow> Inl (invalid_structure e)
      | Inr (JStr t) \<Rightarrow>
          (case json_loads env (clean_reply t) of
             Inl e \<Rightarrow> Inl (invalid_structure e)
           | Inr v \<Rightarrow> Inr v)
      | Inr v \<Rightarrow> Inl (no_attribute v ''replace''))"

text \<open>
  One pass of the loop body: the candidate is skipped (status 404, \<open>last_error\<close> kept), it
  returns the parsed reply, or it fails and its detail becomes \<open>last_error\<close>.
\<close>

datatype attempt = Skipped | Returned json | Failed string

text \<open>The two outer handlers: what each stores in \<open>last_error\<close>.\<close>

fun error_detail :: "exn \<Rightarrow> string" where
  "error_detail (HTTPStatusError m t) = t"
| "error_detail e = str_exn e"

definition try_model :: "env \<Rightarrow> call list \<Rightarrow> request \<Rightarrow> attempt" where
  "try_model env tr req =
     (case client_post env tr req of
        Inl e \<Rightarrow> Failed (error_detail e)
      | Inr resp \<Rightarrow>
          if status_code resp = 404 then Skipped
          else (case raise_for_status resp of
                  Some e \<Rightarrow> Failed (error_detail e)
                | None \<Rightarrow>
                    (case response_json resp of
                       Inl e \<Rightarrow> Failed (error_detail e)
                     | Inr result \<Rightarrow>
                         (case parse_envelope env result of
                            Inl e \<Rightarrow> Failed (error_detail e)
                          | Inr v \<Rightarrow> Returned v))))"

definition exhausted :: "string option \<Rightarrow> exn" where
  "exhausted last_error =
     ValueError (''All models failed. Last API response: ''
                 @ (case last_error of None \<Rightarrow> ''None'' | Some s \<Rightarrow> s))"

text \<open>
  The \<^verbatim>\<open>for model_name in target_models\<close> loop and the \<^verbatim>\<open>raise\<close> after it, for any list
  of candidates. Every request is appended to the calls made.
\<close>

fun for_models ::
    "env \<Rightarrow> (string \<Rightarrow> request) \<Rightarrow> string list \<Rightarrow> string option \<Rightarrow> call list
     \<Rightarrow> (exn + json) \<times> call list" where
  "for_models env mk [] last_error tr = (Inl (exhausted last_error), tr)"
| "for_models env mk (name # names) last_error tr =
     (case try_model env tr (mk name) of
        Skipped \<Rightarrow> for_models env mk names last_error (tr @ [Http_post (mk name)])
      | Failed detail \<Rightarrow> for_models env mk names (Some detail) (tr @ [Http_post (mk name)])
      | Returned v \<Rightarrow> (Inr v, tr @ [Http_post (mk name)]))"

definition extract_data_with_gemini_raw ::
    "env \<Rightarrow> call list \<Rightarrow> bytes \<Rightarrow> json \<Rightarrow> (exn + json) \<times> call list" where
  "extract_data_with_gemini_raw env tr file_bytes file_path =
     (case file_path of
        JStr p \<Rightarrow> for_models env (build_request file_bytes p) target_models None tr
      | v \<Rightarrow> (Inl (no_attribute v ''lower''), tr))"

subsection \<open>process_coi_webhook\<close>

text \<open>
  The request body, as the endpoint's \<^verbatim>\<open>WebhookPayload\<close> model accepts it (\<open>schema_name\<close>
  is sent under the key \<^verbatim>\<open>schema\<close>).
\<close>

record WebhookPayload =
  payload_type :: string
  payload_table :: string
  payload_record :: "(string \<times> json) list"
  schema_name :: string
  old_record :: "(string \<times> json) list option"

text \<open>
  "Validate Dates": the status the extracted expiration date gives. The clock is read
  only once the text has been parsed. \<^verbatim>\<open>strptime\<close> refuses a truthy value that is not a
  string with a \<^verbatim>\<open>TypeError\<close>, which the \<^verbatim>\<open>except ValueError\<close> around it does not catch.
\<close>

definition validate_dates ::
    "env \<Rightarrow> call list \<Rightarrow> json \<Rightarrow> (exn + string) \<times> call list" where
  "validate_dates env tr exp_date_str =
     (if truthy exp_date_str
      then (case exp_date_str of
              JStr s \<Rightarrow>
                (case strptime_ymd s of
                   None \<Rightarrow> (Inr ''error'', tr)
                 | Some exp_date \<Rightarrow>
                     (Inr (if date_less exp_date (clock_today env tr)
                           then ''rejected'' else ''active''),
                      tr @ [Clock_now]))
            | v \<Rightarrow>
                (Inl (TypeError (''strptime() argument 1 must be str, not '' @ py_type_name v)),
                 tr))
      else (Inr ''error'', tr))"

text \<open>The \<^verbatim>\<open>update_data\<close> dictionary, keys in the order written.\<close>

definition build_update_data :: "json \<Rightarrow> json \<Rightarrow> string \<Rightarrow> exn + (string \<times> json) list" where
  "build_update_data extracted_data exp_date_str status =
     bind_exn (dict_get extracted_data ''insurer_name'') (\<lambda>carrier.
     bind_exn (dict_get extracted_data ''general_liability_limit'') (\<lambda>limit.
     bind_exn (dict_get extracted_data ''confidence_score'') (\<lambda>confidence.
       Inr [(''carrier_name'', carrier),
            (''policy_number'', JStr ''PENDING''),
            (''expiration_date'', if truthy exp_date_str then exp_date_str else JNull),
            (''limit_amount'', limit),
            (''ocr_confidence_score'', confidence),
            (''ocr_data'', extracted_data),
            (''processing_status'', JStr status)])))"

definition success_outcome :: "string \<Rightarrow> json" where
  "success_outcome status = JObj [(''status'', JStr ''success''), (''policy_status'', JStr status)]"

definition error_outcome :: "string \<Rightarrow> json" where
  "error_outcome message = JObj [(''status'', JStr ''error''), (''message'', JStr message)]"

text \<open>
  The body of the \<^verbatim>\<open>try\<close>: download, extract, validate dates, update the record. \<open>Inl\<close> is
  the exception that reaches the handler.
\<close>

definition try_block ::
    "env \<Rightarrow> call list \<Rightarrow> json \<Rightarrow> json \<Rightarrow> (exn + json) \<times> call list" where
  "try_block env tr policy_id document_url =
     (case download_file_from_supabase env tr document_url of
        (Inl e, tr1) \<Rightarrow> (Inl e, tr1)
      | (Inr file_bytes, tr1) \<Rightarrow>
     (case extract_data_with_gemini_raw env tr1 file_bytes document_url of
        (Inl e, tr2) \<Rightarrow> (Inl e, tr2)
      | (Inr extracted_data, tr2) \<Rightarrow>
     (case dict_get extracted_data ''policy_expiration_date'' of
        Inl e \<Rightarrow> (Inl e, tr2)
      | Inr exp_date_str \<Rightarrow>
     (case validate_dates env tr2 exp_date_str of
        (Inl e, tr3) \<Rightarrow> (Inl e, tr3)
      | (Inr status, tr3) \<Rightarrow>
     (case build_update_data extracted_data exp_date_str status of
        Inl e \<Rightarrow> (Inl e, tr3)
      | Inr update_data \<Rightarrow>
          (case update_execute env tr3 ''policies'' update_data ''id'' policy_id of
             Some e \<Rightarrow> Inl e
           | None \<Rightarrow> Inr (success_outcome status),
           tr3 @ [Table_update ''policies'' update_data ''id'' policy_id]))))))"

text \<open>The second, best-effort update of the handler: the record's status set to \<open>error\<close>.\<close>

definition mark_error :: "json \<Rightarrow> call" where
  "mark_error policy_id =
     Table_update ''policies'' [(''processing_status'', JStr ''error'')] ''id'' policy_id"

text \<open>
  The endpoint. The two lookups in the record stand before the \<^verbatim>\<open>try\<close>, so what they
  raise leaves the function (\<open>Inl\<close>). Inside the handler the second update is issued and
  whatever it raises is dropped, so the store's answer to it is not read.
\<close>

definition process_coi_webhook ::
    "env \<Rightarrow> call list \<Rightarrow> WebhookPayload \<Rightarrow> (exn + json) \<times> call list" where
  "process_coi_webhook env tr payload =
     (case getitem_key (JObj (payload_record payload)) ''id'' of
        Inl e \<Rightarrow> (Inl e, tr)
      | Inr policy_id \<Rightarrow>
     (case getitem_key (JObj (payload_record payload)) ''document_url'' of
        Inl e \<Rightarrow> (Inl e, tr)
      | Inr document_url \<Rightarrow>
     (case try_block env tr policy_id document_url of
        (Inr outcome, tr1) \<Rightarrow> (Inr outcome, tr1)
      | (Inl e, tr1) \<Rightarrow>
          (Inr (error_outcome (str_exn e)), tr1 @ [mark_error policy_id]))))"

section \<open>nag_engine.py\<close>

subsection \<open>The store's reading of a query\<close>

text \<open>
  Modelled from the spec: the persistence collaborator's read query (section 6: an
  equality filter on the status and two range filters on the expiration date), the store
  being a service outside the repository. The definitions of this subsection are that
  model. First, a date as the store writes it in a row and reads it in a filter:
  \<^verbatim>\<open>YYYY-MM-DD\<close>, four, two and two digits.
\<close>

fun iso_date :: "string \<Rightarrow> date option" where
  "iso_date [y1, y2, y3, y4, h1, m1, m2, h2, d1, d2] =
     (let y = 1000 * digit_val y1 + 100 * digit_val y2 + 10 * digit_val y3 + digit_val y4;
          m = 10 * digit_val m1 + digit_val m2;
          d = 10 * digit_val d1 + digit_val d2
      in if list_all is_digit [y1, y2, y3, y4, m1, m2, d1, d2] \<and> h1 = CHR ''-'' \<and> h2 = CHR ''-''
            \<and> valid_date y m d
         then Some \<lparr>year = y, month = m, day = d\<rparr>
         else None)"
| "iso_date s = None"

text \<open>Modelled from the spec: the value a row holds in a column, null when it has none.\<close>

definition column :: "json \<Rightarrow> string \<Rightarrow> json" where
  "column row c = (case row of JObj kvs \<Rightarrow> (case map_of kvs c of None \<Rightarrow> JNull | Some v \<Rightarrow> v)
                   | _ \<Rightarrow> JNull)"

text \<open>Modelled from the spec: the date a row holds in a date column, if any.\<close>

definition column_date :: "json \<Rightarrow> string \<Rightarrow> date option" where
  "column_date row c = (case column row c of JStr s \<Rightarrow> iso_date s | _ \<Rightarrow> None)"

text \<open>
  Modelled from the spec: the filters of the persistence collaborator's read query
  (section 6). A row passes \<open>Eq\<close> when the column holds that text, and
  \<open>Lte\<close> or \<open>Gte\<close> when the column holds a date not after, or not before, the date of the
  bound; a row whose column is null passes no filter.
\<close>

fun row_passes :: "json \<Rightarrow> filter \<Rightarrow> bool" where
  "row_passes row (Eq c v) = (column row c = JStr v)"
| "row_passes row (Lte c v) =
     (case (column_date row c, iso_date v) of (Some a, Some b) \<Rightarrow> date_le a b | _ \<Rightarrow> False)"
| "row_passes row (Gte c v) =
     (case (column_date row c, iso_date v) of (Some a, Some b) \<Rightarrow> date_le b a | _ \<Rightarrow> False)"

text \<open>
  Modelled from the spec: \<^verbatim>\<open>.execute()\<close> on a select (section 6). The store fails, or answers with those of its rows (each
  as the select clause shapes it, the linked vendor embedded) that pass every filter.
\<close>

definition select_execute :: "env \<Rightarrow> call list \<Rightarrow> query \<Rightarrow> exn + json list" where
  "select_execute env tr q =
     (case store_rows env tr (from_table q) (select_columns q) of
        Inl e \<Rightarrow> Inl e
      | Inr rows \<Rightarrow> Inr (filter (\<lambda>row. list_all (row_passes row) (filters q)) rows))"

subsection \<open>get_expiring_policies\<close>

definition expiring_query :: "date \<Rightarrow> date \<Rightarrow> query" where
  "expiring_query today target_date =
     \<lparr>from_table = ''policies'',
      select_columns = ''*, vendors(company_name, contact_email)'',
      filters = [Eq ''processing_status'' ''active'',
                 Lte ''expiration_date'' (isoformat target_date),
                 Gte ''expiration_date'' (isoformat today)]\<rparr>"

text \<open>
  The clock is read twice, for \<open>target_date\<close> and then for \<open>today\<close>; both stand before the
  \<^verbatim>\<open>try\<close>, so an overflow of the date arithmetic leaves the function.
\<close>

definition get_expiring_policies ::
    "env \<Rightarrow> call list \<Rightarrow> int \<Rightarrow> (exn + json list) \<times> call list" where
  "get_expiring_policies env tr days_out =
     (case date_add_days (clock_today env tr) days_out of
        Inl e \<Rightarrow> (Inl e, tr @ [Clock_now])
      | Inr target_date \<Rightarrow>
          (let today = clock_today env (tr @ [Clock_now]);
               tr2 = tr @ [Clock_now, Clock_now];
               q = expiring_query today target_date
           in (case select_execute env tr2 q of
                 Inl e \<Rightarrow> Inr []
               | Inr data \<Rightarrow> Inr data,
               tr2 @ [Table_select q])))"

subsection \<open>send_email\<close>

definition fallback_email :: string where
  "fallback_email = ''mlodic.blue@gmail.com''"

text \<open>
  "Target Mapping" in \<^verbatim>\<open>send_email\<close>: the address the message goes to and the name it
  greets, \<^verbatim>\<open>(target_email, vendor_name)\<close>.
\<close>

definition target_mapping :: "json \<Rightarrow> exn + json \<times> json" where
  "target_mapping policy =
     bind_exn (dict_get policy ''vendors'') (\<lambda>vendor_data.
       if truthy vendor_data
       then bind_exn (dict_get vendor_data ''contact_email'') (\<lambda>contact_email.
              if truthy contact_email
              then bind_exn (dict_get vendor_data ''contact_email'') (\<lambda>target_email.
                   bind_exn (dict_get vendor_data ''company_name'') (\<lambda>vendor_name.
                     Inr (target_email, vendor_name)))
              else Inr (JStr fallback_email, JStr ''Valued Vendor''))
       else Inr (JStr fallback_email, JStr ''Valued Vendor''))"

section \<open>Notions the properties are stated with\<close>

text \<open>The requests a list of candidates stands for, one per candidate, in order.\<close>

definition posts :: "(string \<Rightarrow> request) \<Rightarrow> string list \<Rightarrow> call list" where
  "posts mk names = map (\<lambda>name. Http_post (mk name)) names"

text \<open>
  Every candidate of the list, requested in its turn after the calls \<open>tr\<close>, is answered
  with status 404.
\<close>

fun all_not_found :: "env \<Rightarrow> (string \<Rightarrow> request) \<Rightarrow> string list \<Rightarrow> call list \<Rightarrow> bool" where
  "all_not_found env mk [] tr = True"
| "all_not_found env mk (name # names) tr =
     ((case client_post env tr (mk name) of Inr resp \<Rightarrow> status_code resp = 404 | Inl e \<Rightarrow> False)
      \<and> all_not_found env mk names (tr @ [Http_post (mk name)]))"

text \<open>What each candidate of the list does when it is requested in its turn.\<close>

fun attempts :: "env \<Rightarrow> (string \<Rightarrow> request) \<Rightarrow> string list \<Rightarrow> call list \<Rightarrow> attempt list" where
  "attempts env mk [] tr = []"
| "attempts env mk (name # names) tr =
     try_model env tr (mk name) # attempts env mk names (tr @ [Http_post (mk name)])"

fun is_failure :: "attempt \<Rightarrow> bool" where
  "is_failure (Returned v) = False"
| "is_failure a = True"

text \<open>
  The last error detail recorded over a run of attempts: that of the last attempt that
  failed other than by a 404, or the one held before when there is none.
\<close>

fun record_detail :: "string option \<Rightarrow> attempt \<Rightarrow> string option" where
  "record_detail last_error (Failed detail) = Some detail"
| "record_detail last_error a = last_error"

definition last_recorded :: "string option \<Rightarrow> attempt list \<Rightarrow> string option" where
  "last_recorded last_error as = foldl record_detail last_error as"


text \<open>
  A row the scan is to return: its status is \<open>active\<close> and its expiration date lies in
  the closed interval from \<open>today\<close> to \<open>target\<close>.
\<close>

definition expiring_between :: "date \<Rightarrow> date \<Rightarrow> json \<Rightarrow> bool" where
  "expiring_between today target row =
     (column row ''processing_status'' = JStr ''active''
      \<and> (case column_date row ''expiration_date'' of
            None \<Rightarrow> False
          | Some d \<Rightarrow> date_le today d \<and> date_le d target))"

section \<open>Sample collaborators\<close>

text \<open>
  Concrete collaborators to run the functions on. \<open>loads_table\<close> stands for \<^verbatim>\<open>json.loads\<close>
  on the texts a run meets: the table lists the texts that are JSON, with their values,
  and the other texts used below do not start with a JSON value.
\<close>

definition loads_table :: "(string \<times> json) list \<Rightarrow> string \<Rightarrow> exn + json" where
  "loads_table table s =
     (case map_of table s of
        Some v \<Rightarrow> Inr v
      | None \<Rightarrow> Inl (JSONDecodeError ''Expecting value: line 1 column 1 (char 0)''))"

definition envelope :: "string \<Rightarrow> json" where
  "envelope t =
     JObj [(''candidates'',
            JArr [JObj [(''content'', JObj [(''parts'', JArr [JObj [(''text'', JStr t)]])])]])]"

definition ok_response :: "string \<Rightarrow> response" where
  "ok_response t =
     \<lparr>status_code = 200, status_message = ''OK'', response_text = ''(body)'',
      response_json = Inr (envelope t)\<rparr>"

definition status_response :: "nat \<Rightarrow> string \<Rightarrow> response" where
  "status_response code body =
     \<lparr>status_code = code, status_message = ''status '' @ show_nat code, response_text = body,
      response_json = Inl (JSONDecodeError ''Expecting value: line 1 column 1 (char 0)'')\<rparr>"

text \<open>
  Collaborators that do not change over time: the provider answers by model name, the
  store answers every update with \<open>upd\<close> and holds \<open>rows\<close>, storage holds the same
  document under every path, the clock shows \<open>today\<close>.
\<close>

definition steady_env ::
    "(string \<Rightarrow> exn + response) \<Rightarrow> (string \<times> json) list \<Rightarrow> date \<Rightarrow> exn option
     \<Rightarrow> exn + json list \<Rightarrow> env" where
  "steady_env by_model table today upd rows =
     \<lparr>storage_download = (\<lambda>tr path. Inr ''%PDF-1.4''),
      client_post = (\<lambda>tr req. by_model (model_name req)),
      update_execute = (\<lambda>tr t data c v. upd),
      store_rows = (\<lambda>tr t s. rows),
      json_loads = loads_table table,
      clock_today = (\<lambda>tr. today)\<rparr>"

text \<open>The first candidate is unknown to the provider, the second answers with \<open>t\<close>.\<close>

definition second_answers :: "string \<Rightarrow> string \<Rightarrow> exn + response" where
  "second_answers t name =
     (if name = ''gemini-2.5-flash-preview-09-2025'' then Inr (status_response 404 ''no such model'')
      else if name = ''gemini-2.5-flash'' then Inr (ok_response t)
      else Inl (OtherException ''connection refused''))"

text \<open>
  Four ways to fail: unknown model, server error, a reply that is not JSON, unknown
  model again.
\<close>

definition none_answers :: "string \<Rightarrow> exn + response" where
  "none_answers name =
     (if name = ''gemini-2.5-flash-preview-09-2025'' then Inr (status_response 404 ''no such model'')
      else if name = ''gemini-2.5-flash'' then Inr (status_response 503 ''overloaded'')
      else if name = ''gemini-1.5-flash-latest'' then Inr (ok_response ''Sorry, I cannot read it.'')
      else Inr (status_response 404 ''no such model''))"

definition june_1st :: date where
  "june_1st = \<lparr>year = 2024, month = 6, day = 1\<rparr>"

text \<open>
  An upload event for record \<open>P1\<close>, and a second event for the same record and document
  that differs in every other field.
\<close>

definition event_p1 :: WebhookPayload where
  "event_p1 =
     \<lparr>payload_type = ''INSERT'', payload_table = ''policies'',
      payload_record = [(''id'', JStr ''P1''), (''document_url'', JStr ''cois/p1.pdf'')],
      schema_name = ''public'', old_record = None\<rparr>"

definition event_p1_again :: WebhookPayload where
  "event_p1_again =
     \<lparr>payload_type = ''UPDATE'', payload_table = ''uploads'',
      payload_record = [(''document_url'', JStr ''cois/p1.pdf''), (''id'', JStr ''P1''),
                        (''processing_status'', JStr ''pending'')],
      schema_name = ''staging'', old_record = Some [(''id'', JStr ''P1'')]\<rparr>"

text \<open>An event whose record has no \<^verbatim>\<open>id\<close>.\<close>

definition event_without_id :: WebhookPayload where
  "event_without_id =
     \<lparr>payload_type = ''INSERT'', payload_table = ''policies'',
      payload_record = [(''document_url'', JStr ''cois/p1.pdf'')],
      schema_name = ''public'', old_record = None\<rparr>"

text \<open>A reply without an expiration date, as text and as \<^verbatim>\<open>json.loads\<close> reads it.\<close>

definition undated_text :: string where
  \<open>undated_text = ''{"policy_expiration_date": null, "insurer_name": "Acme", "general_liability_limit": 1000000, "confidence_score": 0.95}''\<close>

definition undated :: "(string \<times> json) list" where
  "undated =
     [(''policy_expiration_date'', JNull), (''insurer_name'', JStr ''Acme''),
      (''general_liability_limit'', JInt 1000000), (''confidence_score'', JFloat 0.95)]"

text \<open>Every candidate answers with the undated reply; the store answers updates with \<open>upd\<close>.\<close>

definition undated_env :: "exn option \<Rightarrow> env" where
  "undated_env upd =
     steady_env (\<lambda>name. Inr (ok_response undated_text)) [(undated_text, JObj undated)]
       june_1st upd (Inr [])"

text \<open>Rows of the policies table as the scan's select clause shapes them.\<close>

definition policy_row :: "string \<Rightarrow> string \<Rightarrow> string \<Rightarrow> json \<Rightarrow> json" where
  "policy_row ident expiration status vendor =
     JObj [(''id'', JStr ident), (''carrier_name'', JStr ''Acme''),
           (''expiration_date'', JStr expiration), (''processing_status'', JStr status),
           (''vendors'', vendor)]"

definition vendor_contact :: "string \<Rightarrow> string \<Rightarrow> json" where
  "vendor_contact company email =
     JObj [(''company_name'', JStr company), (''contact_email'', JStr email)]"

definition june_rows :: "json list" where
  "june_rows =
     [policy_row ''A'' ''2024-06-20'' ''active'' (vendor_contact ''Bolt Ltd'' ''ops@bolt.example''),
      policy_row ''B'' ''2024-06-20'' ''rejected'' JNull,
      policy_row ''C'' ''2024-07-15'' ''active'' JNull,
      policy_row ''D'' ''2024-06-01'' ''active'' JNull,
      policy_row ''E'' ''2024-07-01'' ''active'' (vendor_contact ''Nut Ltd'' []),
      policy_row ''F'' ''2024-05-31'' ''active'' JNull,
      policy_row ''G'' ''2024-07-02'' ''active'' JNull]"

definition july_1st :: date where
  "july_1st = \<lparr>year = 2024, month = 7, day = 1\<rparr>"

section \<open>Status resolution\<close>






section \<open>The candidate loop\<close>

lemma parse_envelope_Inr_iff:
  "parse_envelope env result = Inr v \<longleftrightarrow>
     (\<exists>t. reply_text result = Inr (JStr t) \<and> json_loads env (clean_reply t) = Inr v)"
  by (auto simp: parse_envelope_def split: sum.splits json.splits)

lemma try_model_Returned_iff:
  "try_model env tr req = Returned v \<longleftrightarrow>
     (\<exists>resp result. client_post env tr req = Inr resp \<and> status_code resp \<noteq> 404
        \<and> raise_for_status resp = None \<and> response_json resp = Inr result
        \<and> parse_envelope env result = Inr v)"
  by (auto simp: try_model_def split: sum.splits option.splits)

lemma try_model_Skipped_iff:
  "try_model env tr req = Skipped \<longleftrightarrow>
     (\<exists>resp. client_post env tr req = Inr resp \<and> status_code resp = 404)"
  by (auto simp: try_model_def split: sum.splits option.splits)

text \<open>
  An attempt fails, in the sense of \<open>is_failure\<close>, exactly when the request raises, is
  answered with 404 or another status outside 200 to 299, or carries a body or an
  envelope that cannot be read.
\<close>

lemma is_failure_iff:
  "is_failure (try_model env tr req) \<longleftrightarrow>
     (case client_post env tr req of
        Inl e \<Rightarrow> True
      | Inr resp \<Rightarrow>
          status_code resp = 404 \<or> raise_for_status resp \<noteq> None
          \<or> (case response_json resp of
                Inl e \<Rightarrow> True
              | Inr result \<Rightarrow> (case parse_envelope env result of Inl e \<Rightarrow> True | Inr v \<Rightarrow> False)))"
  by (auto simp: try_model_def split: sum.splits option.splits)

lemma for_models_skip_prefix:
  "all_not_found env mk pre tr \<Longrightarrow>
     for_models env mk (pre @ names) last_error tr
       = for_models env mk names last_error (tr @ posts mk pre)"
proof (induction pre arbitrary: tr)
  case Nil
  then show ?case by (simp add: posts_def)
next
  case (Cons name pre)
  from Cons.prems have sk: "try_model env tr (mk name) = Skipped"
    by (auto simp: try_model_Skipped_iff split: sum.splits)
  from Cons.prems have rest: "all_not_found env mk pre (tr @ [Http_post (mk name)])"
    by simp
  show ?case using Cons.IH [OF rest] sk by (simp add: posts_def)
qed

lemma for_models_first_success:
  assumes "all_not_found env mk pre tr"
    and "try_model env (tr @ posts mk pre) (mk name) = Returned v"
  shows "for_models env mk (pre @ name # rest) last_error tr
           = (Inr v, tr @ posts mk pre @ [Http_post (mk name)])"
  using for_models_skip_prefix [OF assms(1), of "name # rest" last_error] assms(2)
  by simp

lemma for_models_all_fail:
  "list_all is_failure (attempts env mk names tr) \<Longrightarrow>
     for_models env mk names last_error tr
       = (Inl (exhausted (last_recorded last_error (attempts env mk names tr))),
          tr @ posts mk names)"
proof (induction names arbitrary: tr last_error)
  case Nil
  then show ?case by (simp add: last_recorded_def posts_def)
next
  case (Cons name names)
  from Cons.prems
  have rest: "list_all is_failure (attempts env mk names (tr @ [Http_post (mk name)]))"
    by simp
  from Cons.prems have f: "is_failure (try_model env tr (mk name))" by simp
  show ?case
  proof (cases "try_model env tr (mk name)")
    case Skipped
    then show ?thesis using Cons.IH [OF rest, of last_error]
      by (simp add: last_recorded_def posts_def)
  next
    case (Returned v)
    then show ?thesis using f by simp
  next
    case (Failed d)
    then show ?thesis using Cons.IH [OF rest, of "Some d"]
      by (simp add: last_recorded_def posts_def)
  qed
qed

lemma clean_reply_samples:
  "clean_reply ''{}'' = ''{}''"
  "clean_reply ''[1, 2]'' = ''[1, 2]''"
  "clean_reply ''Sorry, I cannot read it.'' = ''Sorry, I cannot read it.''"
  by (simp_all add: clean_reply_def py_strip_def py_replace_def py_isspace_def)

lemma reply_text_envelope: "reply_text (envelope t) = Inr (JStr t)"
  by (simp add: reply_text_def envelope_def bind_exn_def)

text \<open>
  C3. For a list of \<open>N\<close> candidates and \<open>1 \<le> k \<le> N\<close>: when the candidates before the
  \<open>k\<close>-th are each answered with status 404 and the \<open>k\<close>-th request is answered with a
  success status and an envelope whose cleaned text \<^verbatim>\<open>json.loads\<close> parses to \<open>v\<close>, the loop
  returns \<open>v\<close>, and the requests it has issued are those to the first \<open>k\<close> candidates and
  no other.
\<close>

theorem gateway_first_success:
  assumes "1 \<le> k" and "k \<le> length names"
    and "all_not_found env mk (take (k - 1) names) tr"
    and "client_post env (tr @ posts mk (take (k - 1) names)) (mk (names ! (k - 1))) = Inr resp"
    and "status_code resp \<noteq> 404" and "raise_for_status resp = None"
    and "response_json resp = Inr result"
    and "reply_text result = Inr (JStr t)"
    and "json_loads env (clean_reply t) = Inr v"
  shows "for_models env mk names last_error tr = (Inr v, tr @ posts mk (take k names))"
proof -
  let ?pre = "take (k - 1) names"
  let ?name = "names ! (k - 1)"
  let ?rest = "drop k names"
  have lt: "k - 1 < length names" using assms(1,2) by simp
  have split: "names = ?pre @ ?name # ?rest"
    using id_take_nth_drop [OF lt] assms(1) by simp
  have tk: "take k names = ?pre @ [?name]"
    using take_Suc_conv_app_nth [OF lt] assms(1) by simp
  have ret: "try_model env (tr @ posts mk ?pre) (mk ?name) = Returned v"
    using assms(4-9) by (auto simp: try_model_Returned_iff parse_envelope_Inr_iff)
  have "for_models env mk (?pre @ ?name # ?rest) last_error tr
          = (Inr v, tr @ posts mk ?pre @ [Http_post (mk ?name)])"
    by (rule for_models_first_success [OF assms(3) ret])
  then show ?thesis using split tk by (simp add: posts_def)
qed

theorem gateway_first_success_witness:
  "for_models (steady_env (second_answers ''{}'') [(''{}'', JObj [])] june_1st None (Inr []))
     (build_request ''%PDF-1.4'' ''cois/p1.pdf'') target_models None []
   = (Inr (JObj []),
      [Http_post (build_request ''%PDF-1.4'' ''cois/p1.pdf'' ''gemini-2.5-flash-preview-09-2025''),
       Http_post (build_request ''%PDF-1.4'' ''cois/p1.pdf'' ''gemini-2.5-flash'')])"
proof -
  let ?env = "steady_env (second_answers ''{}'') [(''{}'', JObj [])] june_1st None (Inr [])"
  let ?mk = "build_request ''%PDF-1.4'' ''cois/p1.pdf''"
  have k: "(1::nat) \<le> 2" "2 \<le> length target_models"
    by (simp_all add: target_models_def)
  have nf: "all_not_found ?env ?mk (take (2 - 1) target_models) []"
    by (simp add: target_models_def steady_env_def second_answers_def build_request_def
          status_response_def)
  have post: "client_post ?env ([] @ posts ?mk (take (2 - 1) target_models))
                (?mk (target_models ! (2 - 1))) = Inr (ok_response ''{}'')"
    by (simp add: target_models_def steady_env_def second_answers_def build_request_def)
  have st: "status_code (ok_response ''{}'') \<noteq> 404" "raise_for_status (ok_response ''{}'') = None"
    "response_json (ok_response ''{}'') = Inr (envelope ''{}'')"
    by (simp_all add: ok_response_def raise_for_status_def)
  have ld: "json_loads ?env (clean_reply ''{}'') = Inr (JObj [])"
    by (simp add: clean_reply_samples steady_env_def loads_table_def)
  have "for_models ?env ?mk target_models None [] = (Inr (JObj []), [] @ posts ?mk (take 2 target_models))"
    by (rule gateway_first_success [OF k nf post st reply_text_envelope ld])
  then show ?thesis by (simp add: posts_def target_models_def)
qed

text \<open>
  C4. For a list of \<open>N\<close> candidates each of which fails when requested in its turn (by a
  404, by an exception of the request, by an error status, or by a reply that cannot be
  read), the loop raises the \<^verbatim>\<open>ValueError\<close> "All models failed", whose message ends with
  the last error detail recorded (\<^verbatim>\<open>None\<close> when none was), after issuing one request to
  each of the \<open>N\<close> candidates in order, \<open>N\<close> requests in all.
\<close>

theorem gateway_exhaustion:
  assumes "list_all is_failure (attempts env mk names tr)"
  shows "for_models env mk names last_error tr
           = (Inl (ValueError (''All models failed. Last API response: ''
                     @ (case last_recorded last_error (attempts env mk names tr) of
                          None \<Rightarrow> ''None'' | Some detail \<Rightarrow> detail))),
              tr @ posts mk names)
         \<and> length (posts mk names) = length names"
  using for_models_all_fail [OF assms, of last_error]
  by (simp add: exhausted_def posts_def)

lemma attempts_none_answers:
  "attempts (steady_env none_answers [] june_1st None (Inr []))
     (build_request ''%PDF-1.4'' ''cois/p1.pdf'') target_models []
   = [Skipped, Failed ''overloaded'',
      Failed ''Invalid JSON structure: Expecting value: line 1 column 1 (char 0)'', Skipped]"
  by (simp add: target_models_def steady_env_def none_answers_def build_request_def
        status_response_def ok_response_def try_model_def raise_for_status_def
        parse_envelope_def reply_text_envelope clean_reply_samples loads_table_def)

theorem gateway_exhaustion_witness:
  "for_models (steady_env none_answers [] june_1st None (Inr []))
     (build_request ''%PDF-1.4'' ''cois/p1.pdf'') target_models None []
   = (Inl (ValueError (''All models failed. Last API response: ''
             @ ''Invalid JSON structure: Expecting value: line 1 column 1 (char 0)'')),
      posts (build_request ''%PDF-1.4'' ''cois/p1.pdf'') target_models)
   \<and> length (posts (build_request ''%PDF-1.4'' ''cois/p1.pdf'') target_models) = 4"
proof -
  let ?env = "steady_env none_answers [] june_1st None (Inr [])"
  let ?mk = "build_request ''%PDF-1.4'' ''cois/p1.pdf''"
  have fails: "list_all is_failure (attempts ?env ?mk target_models [])"
    by (simp add: attempts_none_answers)
  show ?thesis
    using gateway_exhaustion [OF fails, of None, unfolded attempts_none_answers]
    by (simp add: last_recorded_def posts_def target_models_def)
qed

section \<open>Reading the provider's reply\<close>









section \<open>The endpoint\<close>

lemma process_with_keys:
  assumes "map_of (payload_record p) ''id'' = Some pid"
    and "map_of (payload_record p) ''document_url'' = Some url"
  shows "process_coi_webhook env tr p =
           (case try_block env tr pid url of
              (Inr outcome, tr1) \<Rightarrow> (Inr outcome, tr1)
            | (Inl e, tr1) \<Rightarrow> (Inr (error_outcome (str_exn e)), tr1 @ [mark_error pid]))"
  using assms by (simp add: process_coi_webhook_def)

lemma validate_dates_status:
  "validate_dates env tr v = (Inr s, tr') \<Longrightarrow> s = ''active'' \<or> s = ''rejected'' \<or> s = ''error''"
  by (auto simp: validate_dates_def split: if_splits json.splits option.splits)

lemma try_block_success:
  assumes "try_block env tr pid url = (Inr out, tr')"
  shows "\<exists>s. out = success_outcome s \<and> (s = ''active'' \<or> s = ''rejected'' \<or> s = ''error'')"
  using assms unfolding try_block_def
  by (auto split: prod.splits sum.splits option.splits dest: validate_dates_status)












lemma try_block_storage_failure:
  assumes "storage_download env tr (py_replace path ''cois/'' '''') = Inl e0"
  shows "try_block env tr pid (JStr path)
           = (Inl (HTTPException 500 ''Storage Download Failed''),
              tr @ [Storage_download (py_replace path ''cois/'' '''')])"
  using assms by (simp add: try_block_def download_file_from_supabase_def)

lemma try_block_extraction_failure:
  assumes "download_file_from_supabase env tr url = (Inr file_bytes, tr1)"
    and "extract_data_with_gemini_raw env tr1 file_bytes url = (Inl e, tr2)"
  shows "try_block env tr pid url = (Inl e, tr2)"
  using assms by (simp add: try_block_def)



text \<open>
  C1, as amended. For every event whose record has both an \<^verbatim>\<open>id\<close> and a \<^verbatim>\<open>document_url\<close>
  key, whatever the collaborators answer or raise, the call returns a structured outcome:
  the success outcome with a policy status among \<open>active\<close>, \<open>rejected\<close> and \<open>error\<close>, or
  the error outcome with a message. No exception leaves the function.
\<close>

theorem structured_outcome:
  assumes "map_of (payload_record p) ''id'' = Some pid"
    and "map_of (payload_record p) ''document_url'' = Some url"
  shows "\<exists>out tr1. process_coi_webhook env tr p = (Inr out, tr1)
           \<and> ((\<exists>s. out = success_outcome s \<and> (s = ''active'' \<or> s = ''rejected'' \<or> s = ''error''))
              \<or> (\<exists>m. out = error_outcome m))"
proof -
  obtain r tr1 where tb: "try_block env tr pid url = (r, tr1)"
    by (cases "try_block env tr pid url")
  show ?thesis
  proof (cases r)
    case (Inl e)
    with tb show ?thesis by (auto simp: process_with_keys [OF assms])
  next
    case (Inr out)
    with tb try_block_success [of env tr pid url out tr1] show ?thesis
      by (auto simp: process_with_keys [OF assms])
  qed
qed

text \<open>
  C1 as stated fails: the record is read before the \<^verbatim>\<open>try\<close>, so for an event whose
  record has no \<^verbatim>\<open>id\<close> the \<^verbatim>\<open>KeyError\<close> leaves the function and no outcome is returned.
\<close>

theorem missing_id_escapes:
  "process_coi_webhook (undated_env None) [] event_without_id
     = (Inl (KeyError (py_repr_key ''id'')), [])"
  by (simp add: process_coi_webhook_def event_without_id_def)

text \<open>
  C10. Two events whose records agree on \<^verbatim>\<open>id\<close> and on \<^verbatim>\<open>document_url\<close> (the same values,
  or both without the key) are processed identically against the same collaborators:
  the same calls in the same order, the same update of the record and the same returned
  outcome (or the same exception), whatever the event type, the table name, the schema
  name, the previous record and the record's other keys are.
\<close>

theorem other_fields_ignored:
  assumes "map_of (payload_record p) ''id'' = map_of (payload_record q) ''id''"
    and "map_of (payload_record p) ''document_url'' = map_of (payload_record q) ''document_url''"
  shows "process_coi_webhook env tr p = process_coi_webhook env tr q"
proof -
  have "getitem_key (JObj (payload_record p)) ''id'' = getitem_key (JObj (payload_record q)) ''id''"
    and "getitem_key (JObj (payload_record p)) ''document_url''
           = getitem_key (JObj (payload_record q)) ''document_url''"
    using assms by simp_all
  then show ?thesis by (simp only: process_coi_webhook_def)
qed



lemma event_p1_keys:
  "map_of (payload_record event_p1) ''id'' = Some (JStr ''P1'')"
  "map_of (payload_record event_p1) ''document_url'' = Some (JStr ''cois/p1.pdf'')"
  "map_of (payload_record event_p1_again) ''id'' = Some (JStr ''P1'')"
  "map_of (payload_record event_p1_again) ''document_url'' = Some (JStr ''cois/p1.pdf'')"
  by (simp_all add: event_p1_def event_p1_again_def)




theorem structured_outcome_witness:
  "\<exists>out tr1. process_coi_webhook (undated_env None) [] event_p1 = (Inr out, tr1)
     \<and> ((\<exists>s. out = success_outcome s \<and> (s = ''active'' \<or> s = ''rejected'' \<or> s = ''error''))
        \<or> (\<exists>m. out = error_outcome m))"
  by (rule structured_outcome [OF event_p1_keys(1,2)])

theorem other_fields_ignored_witness:
  "process_coi_webhook (undated_env None) [] event_p1
     = process_coi_webhook (undated_env None) [] event_p1_again
   \<and> payload_type event_p1 \<noteq> payload_type event_p1_again
   \<and> payload_table event_p1 \<noteq> payload_table event_p1_again
   \<and> schema_name event_p1 \<noteq> schema_name event_p1_again
   \<and> old_record event_p1 \<noteq> old_record event_p1_again"
  using other_fields_ignored [of event_p1 event_p1_again "undated_env None" "[]"]
  by (simp add: event_p1_keys) (simp add: event_p1_def event_p1_again_def)



section \<open>The expiration scan\<close>

lemma char_of_48: "char_of (48::nat) = CHR ''0''"
  by code_simp

lemma replicate_small:
  "replicate (Suc 0) c = [c]" "replicate 2 c = [c, c]" "replicate 3 c = [c, c, c]"
  by (simp_all add: numeral_2_eq_2 numeral_3_eq_3)

lemma digit_char_zero: "digit_char 0 = CHR ''0''"
  by (simp add: digit_char_def char_of_48)

lemma digits4:
  fixes y :: nat
  assumes "y < 10000"
  shows "1000 * (y div 1000 mod 10) + 100 * (y div 100 mod 10) + 10 * (y div 10 mod 10) + y mod 10 = y"
proof -
  have a: "y div 1000 mod 10 = y div 1000" using assms by simp
  have b: "y div 100 = 10 * (y div 1000) + y div 100 mod 10"
    using div_mult_mod_eq [of "y div 100" 10] by (simp add: div_mult2_eq [symmetric])
  have c: "y div 10 = 10 * (y div 100) + y div 10 mod 10"
    using div_mult_mod_eq [of "y div 10" 10] by (simp add: div_mult2_eq [symmetric])
  have d: "y = 10 * (y div 10) + y mod 10" by simp
  show ?thesis using a b c d by linarith
qed

lemma digits2:
  fixes m :: nat
  assumes "m < 100"
  shows "10 * (m div 10 mod 10) + m mod 10 = m"
proof -
  have "m div 10 mod 10 = m div 10" using assms by simp
  then show ?thesis by simp
qed


lemma digit_char_digit: "is_digit (digit_char n)" "digit_val (digit_char n) = n mod 10"
proof -
  have "48 + n mod 10 < 256" by (simp add: less_trans [OF mod_less_divisor]) 
  then have "(of_char (digit_char n) :: nat) = 48 + n mod 10"
    by (simp add: digit_char_def)
  then show "is_digit (digit_char n)" "digit_val (digit_char n) = n mod 10"
    by (simp_all add: is_digit_def digit_val_def)
qed

lemma digit_char_not_dash: "digit_char n \<noteq> CHR ''-''"
  using digit_char_digit(1) [of n] by (auto simp: is_digit_def)

lemma show_nat_1: "n < 10 \<Longrightarrow> show_nat n = [digit_char n]"
  by (simp add: show_nat.simps [of n])

lemma show_nat_2:
  "10 \<le> n \<Longrightarrow> n < 100 \<Longrightarrow> show_nat n = [digit_char (n div 10), digit_char n]"
  by (simp add: show_nat.simps [of n] show_nat_1)

lemma show_nat_3:
  "100 \<le> n \<Longrightarrow> n < 1000 \<Longrightarrow>
     show_nat n = [digit_char (n div 100), digit_char (n div 10), digit_char n]"
  by (simp add: show_nat.simps [of n] show_nat_2 div_mult2_eq [symmetric])

lemma show_nat_4:
  "1000 \<le> n \<Longrightarrow> n < 10000 \<Longrightarrow>
     show_nat n
       = [digit_char (n div 1000), digit_char (n div 100), digit_char (n div 10), digit_char n]"
  by (simp add: show_nat.simps [of n] show_nat_3 div_mult2_eq [symmetric])

lemma zero_pad_2:
  "n < 100 \<Longrightarrow> zero_pad 2 n = [digit_char (n div 10), digit_char n]"
proof (cases "n < 10")
  case True
  then show ?thesis by (simp add: zero_pad_def show_nat_1 digit_char_zero replicate_small)
next
  case False
  assume "n < 100"
  with False show ?thesis by (simp add: zero_pad_def show_nat_2)
qed

lemma zero_pad_4:
  assumes "n < 10000"
  shows "zero_pad 4 n
           = [digit_char (n div 1000), digit_char (n div 100), digit_char (n div 10), digit_char n]"
proof -
  consider "n < 10" | "10 \<le> n" "n < 100" | "100 \<le> n" "n < 1000" | "1000 \<le> n"
    by linarith
  then show ?thesis
  proof cases
    case 1
    then show ?thesis
      by (simp add: zero_pad_def show_nat_1 digit_char_zero replicate_small)
  next
    case 2
    then show ?thesis
      by (simp add: zero_pad_def show_nat_2 digit_char_zero replicate_small)
  next
    case 3
    then show ?thesis
      by (simp add: zero_pad_def show_nat_3 digit_char_zero replicate_small)
  next
    case 4
    with assms show ?thesis
      by (simp add: zero_pad_def show_nat_4)
  qed
qed

lemma iso_date_isoformat:
  assumes "valid_date (year d) (month d) (day d)"
  shows "iso_date (isoformat d) = Some d"
proof -
  have y: "year d < 10000" "1 \<le> year d" and m: "month d < 100" and dd: "day d < 100"
    and dim: "day d \<le> days_in_month (year d) (month d)" "1 \<le> month d" "month d \<le> 12" "1 \<le> day d"
    using assms
    by (auto simp: valid_date_def days_in_month_def DAYS_IN_MONTH_def nth_Cons' split: if_splits)
  note ys = digits4 [OF y(1)] and ms = digits2 [OF m] and ds = digits2 [OF dd]
  show ?thesis
    using assms
    by (simp add: isoformat_def zero_pad_4 [OF y(1)] zero_pad_2 [OF m] zero_pad_2 [OF dd]
          digit_char_digit ys ms ds)
qed

subsection \<open>Dates the arithmetic returns are calendar dates\<close>

lemma month_day_core:
  fixes r :: nat and L :: bool
  assumes "r < 365"
  defines "m0 \<equiv> (r + 50) div 32"
  defines "p0 \<equiv> DAYS_BEFORE_MONTH ! m0 + (if m0 > 2 \<and> L then 1 else 0)"
  defines "m \<equiv> (if p0 > r then m0 - 1 else m0)"
  defines "p \<equiv> (if p0 > r then p0 - (DAYS_IN_MONTH ! m + (if m = 2 \<and> L then 1 else 0)) else p0)"
  shows "1 \<le> m \<and> m \<le> 12 \<and> p \<le> r
         \<and> r - p + 1 \<le> (if m = 2 \<and> L then 29 else DAYS_IN_MONTH ! m)"
proof -
  consider "0 \<le> r" "r < 14" | "14 \<le> r" "r < 46" | "46 \<le> r" "r < 78" | "78 \<le> r" "r < 110" | "110 \<le> r" "r < 142" | "142 \<le> r" "r < 174" | "174 \<le> r" "r < 206" | "206 \<le> r" "r < 238" | "238 \<le> r" "r < 270" | "270 \<le> r" "r < 302" | "302 \<le> r" "r < 334" | "334 \<le> r" "r < 365"
    using assms(1) by linarith
  then show ?thesis
  proof cases
    case 1
    then have "m0 = 1" unfolding m0_def by linarith
    with 1 show ?thesis
      by (auto simp: m_def p_def p0_def DAYS_BEFORE_MONTH_def DAYS_IN_MONTH_def)
  next
    case 2
    then have "m0 = 2" unfolding m0_def by linarith
    with 2 show ?thesis
      by (auto simp: m_def p_def p0_def DAYS_BEFORE_MONTH_def DAYS_IN_MONTH_def)
  next
    case 3
    then have "m0 = 3" unfolding m0_def by linarith
    with 3 show ?thesis
      by (auto simp: m_def p_def p0_def DAYS_BEFORE_MONTH_def DAYS_IN_MONTH_def)
  next
    case 4
    then have "m0 = 4" unfolding m0_def by linarith
    with 4 show ?thesis
      by (auto simp: m_def p_def p0_def DAYS_BEFORE_MONTH_def DAYS_IN_MONTH_def)
  next
    case 5
    then have "m0 = 5" unfolding m0_def by linarith
    with 5 show ?thesis
      by (auto simp: m_def p_def p0_def DAYS_BEFORE_MONTH_def DAYS_IN_MONTH_def)
  next
    case 6
    then have "m0 = 6" unfolding m0_def by linarith
    with 6 show ?thesis
      by (auto simp: m_def p_def p0_def DAYS_BEFORE_MONTH_def DAYS_IN_MONTH_def)
  next
    case 7
    then have "m0 = 7" unfolding m0_def by linarith
    with 7 show ?thesis
      by (auto simp: m_def p_def p0_def DAYS_BEFORE_MONTH_def DAYS_IN_MONTH_def)
  next
    case 8
    then have "m0 = 8" unfolding m0_def by linarith
    with 8 show ?thesis
      by (auto simp: m_def p_def p0_def DAYS_BEFORE_MONTH_def DAYS_IN_MONTH_def)
  next
    case 9
    then have "m0 = 9" unfolding m0_def by linarith
    with 9 show ?thesis
      by (auto simp: m_def p_def p0_def DAYS_BEFORE_MONTH_def DAYS_IN_MONTH_def)
  next
    case 10
    then have "m0 = 10" unfolding m0_def by linarith
    with 10 show ?thesis
      by (auto simp: m_def p_def p0_def DAYS_BEFORE_MONTH_def DAYS_IN_MONTH_def)
  next
    case 11
    then have "m0 = 11" unfolding m0_def by linarith
    with 11 show ?thesis
      by (auto simp: m_def p_def p0_def DAYS_BEFORE_MONTH_def DAYS_IN_MONTH_def)
  next
    case 12
    then have "m0 = 12" unfolding m0_def by linarith
    with 12 show ?thesis
      by (auto simp: m_def p_def p0_def DAYS_BEFORE_MONTH_def DAYS_IN_MONTH_def)
  qed
qed

lemma leap_flag:
  fixes n400 n100 n4 :: nat
  assumes "n4 \<le> 24" and "n4 \<noteq> 24 \<or> n100 = 3"
  shows "is_leap (n400 * 400 + 1 + n100 * 100 + n4 * 4 + 3)"
proof (cases "n4 = 24")
  case True
  with assms(2) have "n400 * 400 + 1 + n100 * 100 + n4 * 4 + 3 = 400 * (n400 + 1)" by simp
  then show ?thesis by (simp add: is_leap_def)
next
  case False
  with assms(1) have lt: "n4 * 4 + 4 < 100" by simp
  have e: "n400 * 400 + 1 + n100 * 100 + n4 * 4 + 3 = (n400 * 4 + n100) * 100 + (n4 * 4 + 4)"
    by simp
  have md: "(k * 100 + x) mod 100 = x" if "x < 100" for k x :: nat
    using that by simp
  have "(n400 * 400 + 1 + n100 * 100 + n4 * 4 + 3) mod 100 = n4 * 4 + 4"
    unfolding e by (rule md [OF lt])
  moreover have "(n400 * 400 + 1 + n100 * 100 + n4 * 4 + 3) mod 4 = 0"
    by presburger
  ultimately show ?thesis by (simp add: is_leap_def)
qed

lemma year_bound:
  fixes n0 n400 na n100 nb n4 nc n1 r :: nat
  assumes "n0 \<le> 3652058"
    and "n0 = 146097 * n400 + na" "na < 146097"
    and "na = 36524 * n100 + nb" "nb < 36524"
    and "nb = 1461 * n4 + nc" "nc < 1461"
    and "nc = 365 * n1 + r" "r < 365"
  shows "n400 * 400 + n100 * 100 + n4 * 4 + n1 \<le> 9998 \<and> n100 \<le> 4 \<and> n4 \<le> 24 \<and> n1 \<le> 4"
proof -
  have b: "n400 \<le> 24" "n100 \<le> 4" "n4 \<le> 24" "n1 \<le> 4" using assms by linarith+
  show ?thesis
  proof (cases "n400 = 24")
    case False
    with b show ?thesis by linarith
  next
    case n400: True
    with assms have na: "na \<le> 145730" by linarith
    with assms have n100: "n100 \<le> 3" by linarith
    show ?thesis
    proof (cases "n100 = 3")
      case False
      with b n100 n400 show ?thesis by linarith
    next
      case True
      with na assms have nb: "nb \<le> 36158" by linarith
      show ?thesis
      proof (cases "n4 = 24")
        case False
        with b n400 True show ?thesis by linarith
      next
        case n4: True
        with nb assms have "nc \<le> 1094" by linarith
        with assms have "n1 \<le> 2" by linarith
        with b n400 True n4 show ?thesis by linarith
      qed
    qed
  qed
qed

lemma ord2ymd_valid:
  assumes "1 \<le> n" and "n \<le> MAXORDINAL"
  shows "valid_date (year (ord2ymd n)) (month (ord2ymd n)) (day (ord2ymd n))"
proof -
  define n0 where "n0 = n - 1"
  define n400 where "n400 = n0 div 146097"
  define na where "na = n0 mod 146097"
  define n100 where "n100 = na div 36524"
  define nb where "nb = na mod 36524"
  define n4 where "n4 = nb div 1461"
  define nc where "nc = nb mod 1461"
  define n1 where "n1 = nc div 365"
  define r where "r = nc mod 365"
  define L where "L = (n1 = 3 \<and> (n4 \<noteq> 24 \<or> n100 = 3))"
  define m0 where "m0 = (r + 50) div 32"
  define p0 where "p0 = DAYS_BEFORE_MONTH ! m0 + (if m0 > 2 \<and> L then 1 else 0)"
  define m where "m = (if p0 > r then m0 - 1 else m0)"
  define p where "p = (if p0 > r then p0 - (DAYS_IN_MONTH ! m + (if m = 2 \<and> L then 1 else 0)) else p0)"
  define y where "y = n400 * 400 + 1 + n100 * 100 + n4 * 4 + n1"
  have eq: "ord2ymd n = (if n1 = 4 \<or> n100 = 4 then \<lparr>year = y - 1, month = 12, day = 31\<rparr>
                         else \<lparr>year = y, month = m, day = r - p + 1\<rparr>)"
    unfolding ord2ymd_def Let_def y_def p_def m_def p0_def m0_def L_def r_def n1_def nc_def
      n4_def nb_def n100_def na_def n400_def n0_def
    by (rule refl)
  have n0: "n0 \<le> 3652058" using assms by (simp add: n0_def MAXORDINAL_def)
  have d1: "n0 = 146097 * n400 + na" "na < 146097" by (simp_all add: n400_def na_def)
  have d2: "na = 36524 * n100 + nb" "nb < 36524" by (simp_all add: n100_def nb_def)
  have d3: "nb = 1461 * n4 + nc" "nc < 1461" by (simp_all add: n4_def nc_def)
  have d4: "nc = 365 * n1 + r" "r < 365" by (simp_all add: n1_def r_def)
  note yb = year_bound [OF n0 d1 d2 d3 d4]
  show ?thesis
  proof (cases "n1 = 4 \<or> n100 = 4")
    case True
    then have "2 \<le> y" by (auto simp: y_def)
    with True yb show ?thesis
      by (simp add: eq valid_date_def days_in_month_def DAYS_IN_MONTH_def y_def)
  next
    case False
    have core: "1 \<le> m \<and> m \<le> 12 \<and> p \<le> r
         \<and> r - p + 1 \<le> (if m = 2 \<and> L then 29 else DAYS_IN_MONTH ! m)"
      unfolding m_def p_def p0_def m0_def by (rule month_day_core [OF d4(2)])
    have yr: "1 \<le> y" "y \<le> 9999" using yb by (simp_all add: y_def)
    have dim: "r - p + 1 \<le> days_in_month y m"
    proof (cases "m = 2 \<and> L")
      case True
      then have "n1 = 3" "n4 \<noteq> 24 \<or> n100 = 3" by (simp_all add: L_def)
      with yb have "is_leap y" unfolding y_def using leap_flag [of n4 n100 n400] by simp
      with True core show ?thesis by (simp add: days_in_month_def)
    next
      case notL: False
      with core have "r - p + 1 \<le> DAYS_IN_MONTH ! m" by auto
      moreover have "DAYS_IN_MONTH ! m \<le> days_in_month y m"
        by (simp add: days_in_month_def DAYS_IN_MONTH_def)
      ultimately show ?thesis by linarith
    qed
    from False core yr dim show ?thesis
      by (simp add: eq valid_date_def)
  qed
qed

lemma date_add_days_valid:
  assumes "date_add_days d h = Inr t"
  shows "valid_date (year t) (month t) (day t)"
proof -
  from assms have "\<bar>h\<bar> \<le> 999999999" and "0 < int (ymd2ord d) + h"
    and "int (ymd2ord d) + h \<le> int MAXORDINAL"
    and t: "t = ord2ymd (nat (int (ymd2ord d) + h))"
    by (auto simp: date_add_days_def Let_def split: if_splits)
  then have "1 \<le> nat (int (ymd2ord d) + h)" "nat (int (ymd2ord d) + h) \<le> MAXORDINAL"
    by linarith+
  then show ?thesis unfolding t by (rule ord2ymd_valid)
qed

subsection \<open>The scan\<close>

lemma select_expiring:
  assumes "valid_date (year today) (month today) (day today)"
    and "valid_date (year target) (month target) (day target)"
    and "store_rows env tr ''policies'' ''*, vendors(company_name, contact_email)'' = Inr rows"
  shows "select_execute env tr (expiring_query today target)
           = Inr (filter (expiring_between today target) rows)"
proof -
  have "list_all (row_passes row) (filters (expiring_query today target))
          = expiring_between today target row" for row
    by (auto simp: expiring_query_def expiring_between_def iso_date_isoformat [OF assms(1)]
          iso_date_isoformat [OF assms(2)] split: option.splits)
  then show ?thesis using assms(3)
    by (simp add: select_execute_def expiring_query_def)
qed

lemma select_fails:
  assumes "store_rows env tr ''policies'' ''*, vendors(company_name, contact_email)'' = Inl e"
  shows "select_execute env tr (expiring_query today target) = Inl e"
  using assms by (simp add: select_execute_def expiring_query_def)

text \<open>
  C8, as amended. For every horizon \<open>h\<close> and every current date \<open>today\<close> (a calendar date,
  shown by both of the scan's readings of the clock) for which \<open>today\<close> plus \<open>h\<close> days is a
  date \<open>target\<close> of the years 1 to 9999: when the store answers the query, the scan returns
  exactly those of the store's rows, in the store's order and each as the select clause
  \<^verbatim>\<open>*, vendors(company_name, contact_email)\<close> shapes it (the linked vendor embedded when
  there is one), whose status is \<open>active\<close> and whose expiration date lies in the closed
  interval from \<open>today\<close> to \<open>target\<close>; when the query fails, the scan returns the empty
  list and raises nothing. Either way its calls are the two readings of the clock and the
  one select.
\<close>

theorem scan_result:
  assumes "clock_today env tr = today" and "clock_today env (tr @ [Clock_now]) = today"
    and "valid_date (year today) (month today) (day today)"
    and "date_add_days today h = Inr target"
  shows "(store_rows env (tr @ [Clock_now, Clock_now]) ''policies''
            ''*, vendors(company_name, contact_email)'' = Inr rows
          \<longrightarrow> get_expiring_policies env tr h
                = (Inr (filter (expiring_between today target) rows),
                   tr @ [Clock_now, Clock_now, Table_select (expiring_query today target)]))
       \<and> (store_rows env (tr @ [Clock_now, Clock_now]) ''policies''
            ''*, vendors(company_name, contact_email)'' = Inl e
          \<longrightarrow> get_expiring_policies env tr h
                = (Inr [], tr @ [Clock_now, Clock_now, Table_select (expiring_query today target)]))"
proof (intro conjI impI)
  assume "store_rows env (tr @ [Clock_now, Clock_now]) ''policies''
            ''*, vendors(company_name, contact_email)'' = Inr rows"
  from select_expiring [OF assms(3) date_add_days_valid [OF assms(4)] this] assms(1,2,4)
  show "get_expiring_policies env tr h
          = (Inr (filter (expiring_between today target) rows),
             tr @ [Clock_now, Clock_now, Table_select (expiring_query today target)])"
    by (simp add: get_expiring_policies_def Let_def)
next
  assume "store_rows env (tr @ [Clock_now, Clock_now]) ''policies''
            ''*, vendors(company_name, contact_email)'' = Inl e"
  from select_fails [OF this, of today target] assms(1,2,4)
  show "get_expiring_policies env tr h
          = (Inr [], tr @ [Clock_now, Clock_now, Table_select (expiring_query today target)])"
    by (simp add: get_expiring_policies_def Let_def)
qed

lemma june_plus_30: "date_add_days june_1st 30 = Inr july_1st"
  by (simp add: date_add_days_def june_1st_def july_1st_def ymd2ord_def ord2ymd_def
        days_before_year_def days_before_month_def DAYS_BEFORE_MONTH_def DAYS_IN_MONTH_def
        is_leap_def MAXORDINAL_def Let_def)

lemma june_valid: "valid_date (year june_1st) (month june_1st) (day june_1st)"
  by (simp add: june_1st_def valid_date_def days_in_month_def DAYS_IN_MONTH_def is_leap_def)

lemma june_filter:
  "filter (expiring_between june_1st july_1st) june_rows
     = [policy_row ''A'' ''2024-06-20'' ''active'' (vendor_contact ''Bolt Ltd'' ''ops@bolt.example''),
        policy_row ''D'' ''2024-06-01'' ''active'' JNull,
        policy_row ''E'' ''2024-07-01'' ''active'' (vendor_contact ''Nut Ltd'' [])]"
  by (simp add: june_rows_def expiring_between_def policy_row_def column_def column_date_def
        is_digit_def digit_val_def valid_date_def days_in_month_def DAYS_IN_MONTH_def
        is_leap_def date_le_def date_less_def june_1st_def july_1st_def)

theorem scan_result_witness:
  "get_expiring_policies (steady_env none_answers [] june_1st None (Inr june_rows)) [] 30
     = (Inr [policy_row ''A'' ''2024-06-20'' ''active''
               (vendor_contact ''Bolt Ltd'' ''ops@bolt.example''),
             policy_row ''D'' ''2024-06-01'' ''active'' JNull,
             policy_row ''E'' ''2024-07-01'' ''active'' (vendor_contact ''Nut Ltd'' [])],
        [Clock_now, Clock_now, Table_select (expiring_query june_1st july_1st)])
   \<and> get_expiring_policies
       (steady_env none_answers [] june_1st None (Inl (OtherException ''connection lost''))) [] 30
     = (Inr [], [Clock_now, Clock_now, Table_select (expiring_query june_1st july_1st)])"
proof -
  let ?ok = "steady_env none_answers [] june_1st None (Inr june_rows)"
  let ?bad = "steady_env none_answers [] june_1st None (Inl (OtherException ''connection lost''))"
  have c: "clock_today ?ok [] = june_1st" "clock_today ?ok ([] @ [Clock_now]) = june_1st"
    "clock_today ?bad [] = june_1st" "clock_today ?bad ([] @ [Clock_now]) = june_1st"
    by (simp_all add: steady_env_def)
  have r: "store_rows ?ok ([] @ [Clock_now, Clock_now]) ''policies''
             ''*, vendors(company_name, contact_email)'' = Inr june_rows"
    "store_rows ?bad ([] @ [Clock_now, Clock_now]) ''policies''
             ''*, vendors(company_name, contact_email)'' = Inl (OtherException ''connection lost'')"
    by (simp_all add: steady_env_def)
  from scan_result [OF c(1,2) june_valid june_plus_30, of june_rows] r(1)
  have 1: "get_expiring_policies ?ok [] 30
             = (Inr (filter (expiring_between june_1st july_1st) june_rows),
                [] @ [Clock_now, Clock_now, Table_select (expiring_query june_1st july_1st)])"
    by blast
  from scan_result [OF c(3,4) june_valid june_plus_30,
      where e = "OtherException ''connection lost''"] r(2)
  have 2: "get_expiring_policies ?bad [] 30
             = (Inr [], [] @ [Clock_now, Clock_now, Table_select (expiring_query june_1st july_1st)])"
    by blast
  from 1 2 show ?thesis by (simp add: june_filter)
qed

text \<open>
  C8 as stated fails for a horizon that leads past the year 9999: the date arithmetic
  stands before the \<^verbatim>\<open>try\<close>, and its \<^verbatim>\<open>OverflowError\<close> leaves the function before any query
  is made.
\<close>

theorem scan_overflow:
  "get_expiring_policies (steady_env none_answers [] june_1st None (Inr june_rows)) [] 10000000
     = (Inl (OverflowError ''date value out of range''), [Clock_now])"
  by (simp add: get_expiring_policies_def date_add_days_def steady_env_def june_1st_def
        ymd2ord_def days_before_year_def days_before_month_def DAYS_BEFORE_MONTH_def
        is_leap_def MAXORDINAL_def Let_def)

section \<open>The recipient of a reminder\<close>

text \<open>
  C9. For every policy row: when it embeds a vendor whose contact email is a non-empty
  text, the message goes to that email and greets the vendor's company name; when no
  vendor is linked (the \<^verbatim>\<open>vendors\<close> key is null or absent), or the vendor's contact email is
  absent, null or empty, the message goes to the fixed fallback address and greets
  "Valued Vendor".
\<close>

theorem recipient_resolution:
  "(map_of p1 ''vendors'' = Some (JObj vendor1) \<and> map_of vendor1 ''contact_email'' = Some (JStr email)
      \<and> email \<noteq> [] \<and> dict_get (JObj vendor1) ''company_name'' = Inr company
      \<longrightarrow> target_mapping (JObj p1) = Inr (JStr email, company))
   \<and> (map_of p2 ''vendors'' = None \<or> map_of p2 ''vendors'' = Some JNull
      \<longrightarrow> target_mapping (JObj p2) = Inr (JStr fallback_email, JStr ''Valued Vendor''))
   \<and> (map_of p3 ''vendors'' = Some (JObj vendor3)
      \<and> (map_of vendor3 ''contact_email'' = None \<or> map_of vendor3 ''contact_email'' = Some JNull
         \<or> map_of vendor3 ''contact_email'' = Some (JStr []))
      \<longrightarrow> target_mapping (JObj p3) = Inr (JStr fallback_email, JStr ''Valued Vendor''))"
proof (intro conjI impI)
  assume a: "map_of p1 ''vendors'' = Some (JObj vendor1)
      \<and> map_of vendor1 ''contact_email'' = Some (JStr email)
      \<and> email \<noteq> [] \<and> dict_get (JObj vendor1) ''company_name'' = Inr company"
  then have "vendor1 \<noteq> []" by auto
  with a show "target_mapping (JObj p1) = Inr (JStr email, company)"
    by (simp add: target_mapping_def bind_exn_def)
next
  assume "map_of p2 ''vendors'' = None \<or> map_of p2 ''vendors'' = Some JNull"
  then show "target_mapping (JObj p2) = Inr (JStr fallback_email, JStr ''Valued Vendor'')"
    by (auto simp: target_mapping_def bind_exn_def)
next
  assume "map_of p3 ''vendors'' = Some (JObj vendor3)
      \<and> (map_of vendor3 ''contact_email'' = None \<or> map_of vendor3 ''contact_email'' = Some JNull
         \<or> map_of vendor3 ''contact_email'' = Some (JStr []))"
  then show "target_mapping (JObj p3) = Inr (JStr fallback_email, JStr ''Valued Vendor'')"
    by (auto simp: target_mapping_def bind_exn_def)
qed

theorem recipient_resolution_witness:
  "target_mapping
     (policy_row ''A'' ''2024-06-20'' ''active'' (vendor_contact ''Bolt Ltd'' ''ops@bolt.example''))
     = Inr (JStr ''ops@bolt.example'', JStr ''Bolt Ltd'')
   \<and> target_mapping (policy_row ''D'' ''2024-06-01'' ''active'' JNull)
     = Inr (JStr ''mlodic.blue@gmail.com'', JStr ''Valued Vendor'')
   \<and> target_mapping (policy_row ''E'' ''2024-07-01'' ''active'' (vendor_contact ''Nut Ltd'' []))
     = Inr (JStr ''mlodic.blue@gmail.com'', JStr ''Valued Vendor'')"
  using recipient_resolution
    [where ?p1.0 = "[(''id'', JStr ''A''), (''carrier_name'', JStr ''Acme''),
                     (''expiration_date'', JStr ''2024-06-20''),
                     (''processing_status'', JStr ''active''),
                     (''vendors'', vendor_contact ''Bolt Ltd'' ''ops@bolt.example'')]"
       and ?vendor1.0 = "[(''company_name'', JStr ''Bolt Ltd''),
                          (''contact_email'', JStr ''ops@bolt.example'')]"
       and email = "''ops@bolt.example''" and company = "JStr ''Bolt Ltd''"
       and ?p2.0 = "[(''id'', JStr ''D''), (''carrier_name'', JStr ''Acme''),
                     (''expiration_date'', JStr ''2024-06-01''),
                     (''processing_status'', JStr ''active''), (''vendors'', JNull)]"
       and ?p3.0 = "[(''id'', JStr ''E''), (''carrier_name'', JStr ''Acme''),
                     (''expiration_date'', JStr ''2024-07-01''),
                     (''processing_status'', JStr ''active''),
                     (''vendors'', vendor_contact ''Nut Ltd'' [])]"
       and ?vendor3.0 = "[(''company_name'', JStr ''Nut Ltd''), (''contact_email'', JStr [])]"]
  by (simp add: policy_row_def vendor_contact_def fallback_email_def)

end
